theory Spec2Isabelle
  imports Main
begin

section \<open>The host: clock, calendar and file system\<close>

text \<open>
  Package dailyrotate consumes Go's \<^verbatim>\<open>time\<close>, \<^verbatim>\<open>os\<close>, \<^verbatim>\<open>io\<close> and
  \<^verbatim>\<open>path/filepath\<close> packages. They are not part of the repository; this section
  fixes the part of their behaviour that the package relies on. Everything the host
  decides (what time it is, whether a system call fails) is read from an oracle that is
  indexed by the number of host calls made so far, so a statement about all worlds is a
  statement about every possible behaviour of the host.
\<close>

subsection \<open>Calendar time\<close>

datatype Month =
  January | February | March | April | May | June
  | July | August | September | October | November | December

text \<open>A \<^verbatim>\<open>time.Time\<close> that has already been converted to a location: its civil date.\<close>

record Time =
  year :: int
  month :: Month
  mday :: nat

definition isLeap :: "int \<Rightarrow> bool" where
  "isLeap y = (y mod 4 = 0 \<and> (y mod 100 \<noteq> 0 \<or> y mod 400 = 0))"

fun daysBefore :: "Month \<Rightarrow> nat" where
  "daysBefore January = 0"
| "daysBefore February = 31"
| "daysBefore March = 59"
| "daysBefore April = 90"
| "daysBefore May = 120"
| "daysBefore June = 151"
| "daysBefore July = 181"
| "daysBefore August = 212"
| "daysBefore September = 243"
| "daysBefore October = 273"
| "daysBefore November = 304"
| "daysBefore December = 334"

fun daysIn :: "Month \<Rightarrow> int \<Rightarrow> nat" where
  "daysIn February y = (if isLeap y then 29 else 28)"
| "daysIn April y = 30"
| "daysIn June y = 30"
| "daysIn September y = 30"
| "daysIn November y = 30"
| "daysIn m y = 31"

text \<open>
  \<^verbatim>\<open>Time.YearDay\<close>: the day of the year, 1 to 365, or 366 in a leap year. From March on
  a leap year has one day more behind it.
\<close>

definition YearDay :: "Time \<Rightarrow> int" where
  "YearDay t =
     int (daysBefore (month t)
          + (if isLeap (year t) \<and> month t \<noteq> January \<and> month t \<noteq> February then 1 else 0)
          + mday t)"

text \<open>The civil dates a \<^verbatim>\<open>time.Time\<close> can show: the day of the month exists.\<close>

definition valid_date :: "Time \<Rightarrow> bool" where
  "valid_date t = (1 \<le> mday t \<and> mday t \<le> daysIn (month t) (year t))"

subsection \<open>Errors, handles, events\<close>

text \<open>
  \<^verbatim>\<open>ErrInvalid\<close> is \<^verbatim>\<open>os.ErrInvalid\<close>, which every method of \<^verbatim>\<open>*os.File\<close> returns on
  a nil receiver; \<^verbatim>\<open>HostError n\<close> is any error the operating system reports.
\<close>

datatype error = ErrInvalid | HostError nat

type_synonym handle = nat
type_synonym location = string
type_synonym callback = nat

datatype whence = SeekStart | SeekCurrent | SeekEnd

datatype oflag = O_RDONLY | O_WRONLY | O_RDWR | O_APPEND | O_CREATE | O_EXCL | O_SYNC | O_TRUNC

text \<open>
  What an observer of the process sees: the system calls made on the file system and the
  calls of the registered hooks, in the order in which they happen.
\<close>

datatype event =
    MkdirAllCall string nat
  | OpenFileCall string "oflag list" nat
  | SeekCall handle int whence
  | CloseCall handle
  | WriteCall handle string
  | SyncCall handle
  | BeforeCloseHook callback string bool
  | OnCloseHook callback string bool
  | OnOpenHook callback string

text \<open>
  The host. The first seven fields are the oracle: the answer of the \<open>n\<close>-th host call,
  should it be a reading of the clock in a location or one of the system calls.
  \<open>timeFormat\<close> and \<open>filepathDir\<close> stand for the library functions \<^verbatim>\<open>Time.Format\<close> and
  \<^verbatim>\<open>filepath.Dir\<close>, which are taken as they come. \<open>tick\<close> counts the host calls made
  and \<open>trace\<close> is the list of events so far.
\<close>

record world =
  clock :: "nat \<Rightarrow> location \<Rightarrow> Time"
  mkdirAllRes :: "nat \<Rightarrow> string \<Rightarrow> error option"
  openFileRes :: "nat \<Rightarrow> string \<Rightarrow> error + handle"
  seekRes :: "nat \<Rightarrow> handle \<Rightarrow> whence \<Rightarrow> error + int"
  closeRes :: "nat \<Rightarrow> handle \<Rightarrow> error option"
  writeRes :: "nat \<Rightarrow> handle \<Rightarrow> string \<Rightarrow> int \<times> error option"
  syncRes :: "nat \<Rightarrow> handle \<Rightarrow> error option"
  timeFormat :: "Time \<Rightarrow> string \<Rightarrow> string"
  filepathDir :: "string \<Rightarrow> string"
  tick :: nat
  trace :: "event list"

definition host_call :: "event \<Rightarrow> world \<Rightarrow> world" where
  "host_call ev w = w\<lparr>tick := Suc (tick w), trace := trace w @ [ev]\<rparr>"

definition hook_call :: "event \<Rightarrow> world \<Rightarrow> world" where
  "hook_call ev w = w\<lparr>trace := trace w @ [ev]\<rparr>"

text \<open>\<^verbatim>\<open>time.Now().In(loc)\<close>: one reading of the clock.\<close>

definition time_Now_In :: "location \<Rightarrow> world \<Rightarrow> Time \<times> world" where
  "time_Now_In loc w = (clock w (tick w) loc, w\<lparr>tick := Suc (tick w)\<rparr>)"

definition os_MkdirAll :: "string \<Rightarrow> nat \<Rightarrow> world \<Rightarrow> error option \<times> world" where
  "os_MkdirAll dir perm w = (mkdirAllRes w (tick w) dir, host_call (MkdirAllCall dir perm) w)"

text \<open>\<^verbatim>\<open>os.OpenFile\<close> returns a nil file together with every error.\<close>

definition os_OpenFile ::
  "string \<Rightarrow> oflag list \<Rightarrow> nat \<Rightarrow> world \<Rightarrow> (handle option \<times> error option) \<times> world" where
  "os_OpenFile name flag perm w =
     ((case openFileRes w (tick w) name of
         Inl e \<Rightarrow> (None, Some e)
       | Inr h \<Rightarrow> (Some h, None)),
      host_call (OpenFileCall name flag perm) w)"

text \<open>
  The methods of \<^verbatim>\<open>*os.File\<close>. On a nil receiver each returns \<^verbatim>\<open>os.ErrInvalid\<close>
  without a system call; \<^verbatim>\<open>Seek\<close> returns offset 0 with every error.
\<close>

fun File_Seek :: "handle option \<Rightarrow> int \<Rightarrow> whence \<Rightarrow> world \<Rightarrow> (int \<times> error option) \<times> world" where
  "File_Seek None off wh w = ((0, Some ErrInvalid), w)"
| "File_Seek (Some h) off wh w =
     ((case seekRes w (tick w) h wh of
         Inl e \<Rightarrow> (0, Some e)
       | Inr pos \<Rightarrow> (pos, None)),
      host_call (SeekCall h off wh) w)"

fun File_Close :: "handle option \<Rightarrow> world \<Rightarrow> error option \<times> world" where
  "File_Close None w = (Some ErrInvalid, w)"
| "File_Close (Some h) w = (closeRes w (tick w) h, host_call (CloseCall h) w)"

fun File_Write :: "handle option \<Rightarrow> string \<Rightarrow> world \<Rightarrow> (int \<times> error option) \<times> world" where
  "File_Write None d w = ((0, Some ErrInvalid), w)"
| "File_Write (Some h) d w = (writeRes w (tick w) h d, host_call (WriteCall h d) w)"

fun File_Sync :: "handle option \<Rightarrow> world \<Rightarrow> error option \<times> world" where
  "File_Sync None w = (Some ErrInvalid, w)"
| "File_Sync (Some h) w = (syncRes w (tick w) h, host_call (SyncCall h) w)"

section \<open>The rotating file\<close>

text \<open>
  The struct \<^verbatim>\<open>File\<close>. A nil function value or nil pointer is \<^verbatim>\<open>None\<close>. The embedded
  mutex is left out: the model runs one operation at a time, which is what the lock
  that every exported method takes enforces.
\<close>

record File =
  pathGenerator :: "(Time \<Rightarrow> string) option"
  pathFormat :: string
  Location :: location
  day :: int
  path :: string
  file' :: "handle option"
  noHooks :: bool
  onOpen :: "callback option"
  onClose :: "callback option"
  beforeClose :: "callback option"
  lastWritePos :: int

definition close :: "bool \<Rightarrow> File \<Rightarrow> world \<Rightarrow> error option \<times> File \<times> world" where
  "close didRotate f w =
     (if file' f = None then (None, f, w)
      else
        let w1 = (case beforeClose f of
                    Some cb \<Rightarrow> if \<not> noHooks f then hook_call (BeforeCloseHook cb (path f) didRotate) w else w
                  | None \<Rightarrow> w);
            (err, w2) = File_Close (file' f) w1;
            f1 = f\<lparr>file' := None\<rparr>;
            w3 = (case onClose f1 of
                    Some cb \<Rightarrow> if err = None \<and> \<not> noHooks f1
                               then hook_call (OnCloseHook cb (path f1) didRotate) w2 else w2
                  | None \<Rightarrow> w2);
            f2 = f1\<lparr>day := 0\<rparr>
        in (err, f2, w3))"

definition Path :: "File \<Rightarrow> string" where
  "Path f = path f"

definition open_file :: "File \<Rightarrow> world \<Rightarrow> error option \<times> File \<times> world" where
  "open_file f w =
     (let (t, w1) = time_Now_In (Location f) w;
          f1 = (case pathGenerator f of
                  Some g \<Rightarrow> f\<lparr>path := g t\<rparr>
                | None \<Rightarrow> f\<lparr>path := timeFormat w t (pathFormat f)\<rparr>);
          f2 = f1\<lparr>day := YearDay t\<rparr>;
          dir = filepathDir w (path f2);
          (err, w2) = os_MkdirAll dir 493 w1
      in if err \<noteq> None then (err, f2, w2)
         else
           let flag = [O_CREATE, O_WRONLY];
               ((fh, err), w3) = os_OpenFile (path f2) flag 420 w2;
               f3 = f2\<lparr>file' := fh\<rparr>
           in if err \<noteq> None then (err, f3, w3)
              else
                let ((pos, err), w4) = File_Seek (file' f3) 0 SeekEnd w3;
                    w5 = (case onOpen f3 of
                            Some cb \<Rightarrow> if err = None \<and> \<not> noHooks f3
                                       then hook_call (OnOpenHook cb (path f3)) w4 else w4
                          | None \<Rightarrow> w4)
                in (err, f3, w5))"

text \<open>Rotate on a new day.\<close>

definition reopenIfNeeded :: "File \<Rightarrow> world \<Rightarrow> error option \<times> File \<times> world" where
  "reopenIfNeeded f w =
     (let (t, w1) = time_Now_In (Location f) w
      in if YearDay t = day f then (None, f, w1)
         else
           let (err, f1, w2) = close True f w1
           in if err \<noteq> None then (err, f1, w2)
              else open_file f1 w2)"

subsection \<open>Options\<close>

text \<open>
  An option is a function that sets one field of the instance under construction. The type
  is unexported and the functions below are the only ones the package builds, so an
  option is represented by the name and argument of its builder and applied by
  \<open>apply_option\<close>.
\<close>

datatype optionF =
    WithOnOpen "callback option"
  | WithOnClose "callback option"
  | WithBeforeClose "callback option"
  | WithPathGenerator "(Time \<Rightarrow> string) option"
  | WithPathFormat string
  | WithLocation location

fun apply_option :: "optionF \<Rightarrow> File \<Rightarrow> File" where
  "apply_option (WithOnOpen cb) f = f\<lparr>onOpen := cb\<rparr>"
| "apply_option (WithOnClose cb) f = f\<lparr>onClose := cb\<rparr>"
| "apply_option (WithBeforeClose cb) f = f\<lparr>beforeClose := cb\<rparr>"
| "apply_option (WithPathGenerator g) f = f\<lparr>pathGenerator := g\<rparr>"
| "apply_option (WithPathFormat s) f = f\<lparr>pathFormat := s\<rparr>"
| "apply_option (WithLocation loc) f = f\<lparr>Location := loc\<rparr>"

subsection \<open>Construction\<close>

definition UTC :: location where
  "UTC = ''UTC''"

text \<open>The struct literal of \<^verbatim>\<open>New\<close>: every field but the location has its zero value.\<close>

definition zeroFile :: File where
  "zeroFile =
     \<lparr>pathGenerator = None, pathFormat = [], Location = UTC, day = 0, path = [],
      file' = None, noHooks = False, onOpen = None, onClose = None, beforeClose = None,
      lastWritePos = 0\<rparr>"

text \<open>
  \<^verbatim>\<open>New\<close> returns a nil instance with every error. The deferred function clears
  \<^verbatim>\<open>noHooks\<close> on the way out.
\<close>

definition New :: "optionF list \<Rightarrow> world \<Rightarrow> (error + File) \<times> world" where
  "New opts w =
     (let f = foldl (\<lambda>f opt. apply_option opt f) zeroFile opts;
          f1 = f\<lparr>noHooks := True\<rparr>;
          (err, f2, w1) = reopenIfNeeded f1 w
      in case err of
           Some e \<Rightarrow> (Inl e, w1)
         | None \<Rightarrow>
             (let (err, f3, w2) = close False f2 w1
              in (case err of
                    Some e \<Rightarrow> (Inl e, w2)
                  | None \<Rightarrow> (Inr (f3\<lparr>noHooks := False\<rparr>), w2))))"

definition NewFile :: "string \<Rightarrow> callback option \<Rightarrow> world \<Rightarrow> (error + File) \<times> world" where
  "NewFile fmt cb w =
     (let opts = [WithPathFormat fmt];
          opts1 = (if cb \<noteq> None then opts @ [WithOnClose cb] else opts)
      in New opts1 w)"

definition NewFileWithPathGenerator ::
  "(Time \<Rightarrow> string) option \<Rightarrow> callback option \<Rightarrow> world \<Rightarrow> (error + File) \<times> world" where
  "NewFileWithPathGenerator g cb w =
     (let opts = [WithPathGenerator g];
          opts1 = (if cb \<noteq> None then opts @ [WithOnClose cb] else opts)
      in New opts1 w)"

subsection \<open>The exported methods\<close>

definition Close :: "File \<Rightarrow> world \<Rightarrow> error option \<times> File \<times> world" where
  "Close f w = close False f w"

text \<open>
  \<^verbatim>\<open>write\<close> returns the offset, the number of bytes and the error. The result of the
  seek is assigned to \<^verbatim>\<open>lastWritePos\<close> whether or not the seek failed.
\<close>

definition write' ::
  "string \<Rightarrow> bool \<Rightarrow> File \<Rightarrow> world \<Rightarrow> (int \<times> int \<times> error option) \<times> File \<times> world" where
  "write' d flush f w =
     (let (err, f1, w1) = reopenIfNeeded f w
      in if err \<noteq> None then ((0, 0, err), f1, w1)
         else
           let ((pos, err), w2) = File_Seek (file' f1) 0 SeekCurrent w1;
               f2 = f1\<lparr>lastWritePos := pos\<rparr>
           in if err \<noteq> None then ((0, 0, err), f2, w2)
              else
                let ((n, err), w3) = File_Write (file' f2) d w2
                in if err \<noteq> None then ((0, n, err), f2, w3)
                   else
                     let (err, w4) = (if flush then File_Sync (file' f2) w3 else (err, w3))
                     in ((lastWritePos f2, n, err), f2, w4))"

definition Write :: "string \<Rightarrow> File \<Rightarrow> world \<Rightarrow> (int \<times> error option) \<times> File \<times> world" where
  "Write d f w =
     (let ((pos, n, err), f1, w1) = write' d False f w
      in ((n, err), f1, w1))"

definition Write2 ::
  "string \<Rightarrow> bool \<Rightarrow> File \<Rightarrow> world \<Rightarrow> (string \<times> int \<times> int \<times> error option) \<times> File \<times> world" where
  "Write2 d flush f w =
     (let ((writtenAtPos, n, err), f1, w1) = write' d flush f w
      in ((path f1, writtenAtPos, n, err), f1, w1))"

definition Flush :: "File \<Rightarrow> world \<Rightarrow> error option \<times> File \<times> world" where
  "Flush f w =
     (let (err, w1) = File_Sync (file' f) w
      in (err, f, w1))"

section \<open>Concrete hosts and instances\<close>

text \<open>
  A host on which every call succeeds: the clock shows \<open>clk n\<close> at the \<open>n\<close>-th call, every
  file opens as descriptor 3 and is empty, every write is complete. Its layout formatter
  returns the layout unchanged and every path has the directory \<^verbatim>\<open>logs\<close>.
\<close>

definition host :: "(nat \<Rightarrow> Time) \<Rightarrow> world" where
  "host clk =
     \<lparr>clock = (\<lambda>n loc. clk n),
      mkdirAllRes = (\<lambda>n d. None),
      openFileRes = (\<lambda>n p. Inr 3),
      seekRes = (\<lambda>n h wh. Inr 0),
      closeRes = (\<lambda>n h. None),
      writeRes = (\<lambda>n h d. (int (length d), None)),
      syncRes = (\<lambda>n h. None),
      timeFormat = (\<lambda>t s. s),
      filepathDir = (\<lambda>p. ''logs''),
      tick = 0, trace = []\<rparr>"

text \<open>
  The same host with a log directory that cannot be created, with files that cannot be
  opened, and with a failing close.
\<close>

definition hostNoDir :: "(nat \<Rightarrow> Time) \<Rightarrow> world" where
  "hostNoDir clk = (host clk)\<lparr>mkdirAllRes := (\<lambda>n d. Some (HostError 13))\<rparr>"

definition hostNoOpen :: "(nat \<Rightarrow> Time) \<Rightarrow> world" where
  "hostNoOpen clk = (host clk)\<lparr>openFileRes := (\<lambda>n p. Inl (HostError 24))\<rparr>"

definition hostNoClose :: "(nat \<Rightarrow> Time) \<Rightarrow> world" where
  "hostNoClose clk = (host clk)\<lparr>closeRes := (\<lambda>n h. Some (HostError 5))\<rparr>"

text \<open>The same host refusing to open the empty path, as file systems do.\<close>

definition hostStrict :: "(nat \<Rightarrow> Time) \<Rightarrow> world" where
  "hostStrict clk =
     (host clk)\<lparr>openFileRes := (\<lambda>n p. if p = [] then Inl (HostError 2) else Inr 3)\<rparr>"

definition jan1 :: Time where
  "jan1 = \<lparr>year = 2024, month = January, mday = 1\<rparr>"

definition jan2 :: Time where
  "jan2 = \<lparr>year = 2024, month = January, mday = 2\<rparr>"

definition feb29 :: Time where
  "feb29 = \<lparr>year = 2024, month = February, mday = 29\<rparr>"

definition mar1 :: Time where
  "mar1 = \<lparr>year = 2025, month = March, mday = 1\<rparr>"

text \<open>A clock that stands still at \<open>t\<close>.\<close>

definition stopped :: "Time \<Rightarrow> nat \<Rightarrow> Time" where
  "stopped t n = t"

text \<open>A path generator that tells the first day of a month from the others.\<close>

definition demoPath :: "Time \<Rightarrow> string" where
  "demoPath t = (if mday t = 1 then ''logs/first.txt'' else ''logs/later.txt'')"

text \<open>Options that configure both naming strategies and all three hooks.\<close>

definition demoOpts :: "optionF list" where
  "demoOpts =
     [WithPathFormat ''2006-01-02.txt'', WithPathGenerator (Some demoPath),
      WithBeforeClose (Some 1), WithOnClose (Some 2), WithOnOpen (Some 3)]"

text \<open>
  The instance that \<open>New demoOpts\<close> returns when the clock shows \<open>t\<close>, and the same
  instance after one successful write at \<open>t\<close>.
\<close>

definition fresh :: "Time \<Rightarrow> File" where
  "fresh t =
     \<lparr>pathGenerator = Some demoPath, pathFormat = ''2006-01-02.txt'', Location = UTC,
      day = 0, path = demoPath t, file' = None, noHooks = False, onOpen = Some 3,
      onClose = Some 2, beforeClose = Some 1, lastWritePos = 0\<rparr>"

definition opened :: "Time \<Rightarrow> File" where
  "opened t = (fresh t)\<lparr>day := YearDay t, file' := Some 3\<rparr>"

section \<open>Evaluation and unfolding lemmas\<close>

lemmas eval_defs =
  New_def Write_def Write2_def write'_def Close_def Flush_def reopenIfNeeded_def
  close_def open_file_def time_Now_In_def os_MkdirAll_def os_OpenFile_def host_call_def
  hook_call_def Let_def host_def hostNoDir_def hostNoOpen_def hostNoClose_def hostStrict_def
  fresh_def opened_def demoOpts_def demoPath_def stopped_def zeroFile_def YearDay_def
  isLeap_def UTC_def

text \<open>The concrete instances are states of the program.\<close>

lemma fresh_reachable:
  "fst (New demoOpts (host (stopped jan1))) = Inr (fresh jan1) \<and>
   fst (New demoOpts (host (stopped feb29))) = Inr (fresh feb29)"
  by (simp add: eval_defs jan1_def feb29_def)

lemma opened_reachable:
  "fst (snd (Write ''a'' (fresh jan1) (host (stopped jan1)))) = opened jan1 \<and>
   fst (snd (Write ''a'' (fresh feb29) (host (stopped feb29)))) = opened feb29"
  by (simp add: eval_defs jan1_def feb29_def)

lemma YearDay_pos: "valid_date t \<Longrightarrow> 1 \<le> YearDay t"
  by (simp add: valid_date_def YearDay_def)

text \<open>The options touch neither the bookkeeping of the open file nor the hook switch.\<close>

lemma configure_fields:
  "day (foldl (\<lambda>f opt. apply_option opt f) f0 opts) = day f0 \<and>
   file' (foldl (\<lambda>f opt. apply_option opt f) f0 opts) = file' f0 \<and>
   path (foldl (\<lambda>f opt. apply_option opt f) f0 opts) = path f0 \<and>
   noHooks (foldl (\<lambda>f opt. apply_option opt f) f0 opts) = noHooks f0 \<and>
   lastWritePos (foldl (\<lambda>f opt. apply_option opt f) f0 opts) = lastWritePos f0"
proof (induction opts arbitrary: f0)
  case Nil
  show ?case by simp
next
  case (Cons opt opts)
  show ?case using Cons.IH [of "apply_option opt f0"] by (cases opt) simp_all
qed

lemma close_no_handle: "file' f = None \<Longrightarrow> close b f w = (None, f, w)"
  by (simp add: close_def)

lemma close_open_handle:
  assumes "file' f = Some h"
  shows "close b f w =
     (closeRes w (tick w) h, f\<lparr>file' := None, day := 0\<rparr>,
      w\<lparr>tick := Suc (tick w),
        trace := trace w
          @ (case beforeClose f of
               Some cb \<Rightarrow> if noHooks f then [] else [BeforeCloseHook cb (path f) b]
             | None \<Rightarrow> [])
          @ [CloseCall h]
          @ (case onClose f of
               Some cb \<Rightarrow> if closeRes w (tick w) h = None \<and> \<not> noHooks f
                          then [OnCloseHook cb (path f) b] else []
             | None \<Rightarrow> [])\<rparr>)"
  using assms
  by (simp add: close_def host_call_def hook_call_def Let_def split: option.splits)

text \<open>The four ways through \<open>open_file\<close>, with the clock read and the host calls numbered.\<close>

lemma open_file_unfold:
  "open_file f w =
     (let t = clock w (tick w) (Location f);
          p = (case pathGenerator f of Some g \<Rightarrow> g t | None \<Rightarrow> timeFormat w t (pathFormat f));
          f2 = f\<lparr>path := p, day := YearDay t\<rparr>;
          mk = MkdirAllCall (filepathDir w p) 493;
          op = OpenFileCall p [O_CREATE, O_WRONLY] 420
      in case mkdirAllRes w (Suc (tick w)) (filepathDir w p) of
           Some e \<Rightarrow> (Some e, f2, w\<lparr>tick := Suc (Suc (tick w)), trace := trace w @ [mk]\<rparr>)
         | None \<Rightarrow>
            (case openFileRes w (Suc (Suc (tick w))) p of
               Inl e \<Rightarrow> (Some e, f2\<lparr>file' := None\<rparr>,
                          w\<lparr>tick := Suc (Suc (Suc (tick w))), trace := trace w @ [mk, op]\<rparr>)
             | Inr h \<Rightarrow>
                (case seekRes w (Suc (Suc (Suc (tick w)))) h SeekEnd of
                   Inl e \<Rightarrow> (Some e, f2\<lparr>file' := Some h\<rparr>,
                              w\<lparr>tick := Suc (Suc (Suc (Suc (tick w)))),
                                trace := trace w @ [mk, op, SeekCall h 0 SeekEnd]\<rparr>)
                 | Inr pos \<Rightarrow> (None, f2\<lparr>file' := Some h\<rparr>,
                              w\<lparr>tick := Suc (Suc (Suc (Suc (tick w)))),
                                trace := trace w @ [mk, op, SeekCall h 0 SeekEnd]
                                  @ (case onOpen f of
                                       Some cb \<Rightarrow> if noHooks f then [] else [OnOpenHook cb p]
                                     | None \<Rightarrow> [])\<rparr>))))"
  by (simp add: open_file_def time_Now_In_def os_MkdirAll_def os_OpenFile_def
      host_call_def hook_call_def Let_def split: option.splits sum.splits)

text \<open>\<open>open_file\<close> records the day whatever becomes of the directory and the file.\<close>

lemma open_file_sets_day:
  "day (fst (snd (open_file f w))) = YearDay (clock w (tick w) (Location f))"
  by (simp add: open_file_unfold Let_def split: option.splits sum.splits)

lemma reopenIfNeeded_same_day:
  "YearDay (clock w (tick w) (Location f)) = day f \<Longrightarrow>
   reopenIfNeeded f w = (None, f, w\<lparr>tick := Suc (tick w)\<rparr>)"
  by (simp add: reopenIfNeeded_def time_Now_In_def)

lemma reopenIfNeeded_closed:
  "file' f = None \<Longrightarrow> YearDay (clock w (tick w) (Location f)) \<noteq> day f \<Longrightarrow>
   reopenIfNeeded f w = open_file f (w\<lparr>tick := Suc (tick w)\<rparr>)"
  by (simp add: reopenIfNeeded_def time_Now_In_def close_no_handle)

lemma reopenIfNeeded_rotate:
  "file' f = Some h \<Longrightarrow> YearDay (clock w (tick w) (Location f)) \<noteq> day f \<Longrightarrow>
   reopenIfNeeded f w =
     (case close True f (w\<lparr>tick := Suc (tick w)\<rparr>) of
        (err, f1, w2) \<Rightarrow> if err \<noteq> None then (err, f1, w2) else open_file f1 w2)"
  by (simp add: reopenIfNeeded_def time_Now_In_def)

text \<open>
  The constructor starts from \<open>day = 0\<close> with no file, so it goes through \<open>open_file\<close>
  whenever the day of the year is not 0, as it is on every valid date.
\<close>

lemma New_unfold:
  assumes "YearDay (clock w (tick w) (Location (foldl (\<lambda>f opt. apply_option opt f) zeroFile opts))) \<noteq> 0"
  shows "New opts w =
     (case open_file ((foldl (\<lambda>f opt. apply_option opt f) zeroFile opts)\<lparr>noHooks := True\<rparr>)
             (w\<lparr>tick := Suc (tick w)\<rparr>) of
        (err, f2, w1) \<Rightarrow>
          (case err of
             Some e \<Rightarrow> (Inl e, w1)
           | None \<Rightarrow>
               (case close False f2 w1 of
                  (err, f3, w2) \<Rightarrow>
                    (case err of
                       Some e \<Rightarrow> (Inl e, w2)
                     | None \<Rightarrow> (Inr (f3\<lparr>noHooks := False\<rparr>), w2)))))"
proof -
  define f1 where "f1 = (foldl (\<lambda>f opt. apply_option opt f) zeroFile opts)\<lparr>noHooks := True\<rparr>"
  have "day f1 = 0" and nofile: "file' f1 = None"
    using configure_fields [of zeroFile opts] by (simp_all add: f1_def zeroFile_def)
  moreover have "YearDay (clock w (tick w) (Location f1)) \<noteq> 0"
    using assms by (simp add: f1_def)
  ultimately have "reopenIfNeeded f1 w = open_file f1 (w\<lparr>tick := Suc (tick w)\<rparr>)"
    by (simp add: reopenIfNeeded_closed)
  then show ?thesis
    by (simp add: New_def Let_def f1_def split: prod.splits option.splits)
qed

lemma New_day_zero:
  assumes "YearDay (clock w (tick w) (Location (foldl (\<lambda>f opt. apply_option opt f) zeroFile opts))) = 0"
  shows "New opts w = (Inr (foldl (\<lambda>f opt. apply_option opt f) zeroFile opts), w\<lparr>tick := Suc (tick w)\<rparr>)"
proof -
  define f1 where "f1 = (foldl (\<lambda>f opt. apply_option opt f) zeroFile opts)\<lparr>noHooks := True\<rparr>"
  have d: "day f1 = 0" and nofile: "file' f1 = None" and nh: "noHooks (foldl (\<lambda>f opt. apply_option opt f) zeroFile opts) = False"
    using configure_fields [of zeroFile opts] by (simp_all add: f1_def zeroFile_def)
  have "YearDay (clock w (tick w) (Location f1)) = day f1"
    using assms d by (simp add: f1_def)
  then have "reopenIfNeeded f1 w = (None, f1, w\<lparr>tick := Suc (tick w)\<rparr>)"
    by (rule reopenIfNeeded_same_day)
  then have "New opts w = (Inr (f1\<lparr>noHooks := False\<rparr>), w\<lparr>tick := Suc (tick w)\<rparr>)"
    using nofile by (simp add: New_def Let_def f1_def [symmetric] close_no_handle)
  moreover have "f1\<lparr>noHooks := False\<rparr> = foldl (\<lambda>f opt. apply_option opt f) zeroFile opts"
    using nh by (simp add: f1_def)
  ultimately show ?thesis by simp
qed

lemma write_rotation_error:
  "reopenIfNeeded f w = (Some e, f1, w1) \<Longrightarrow> write' d flush f w = ((0, 0, Some e), f1, w1)"
  by (simp add: write'_def)

text \<open>
  After the rotation check a write makes no call but the seek to the current position,
  the write and the sync.
\<close>

lemma write_after_rotation_check:
  "case reopenIfNeeded f w of
     (err, f1, w1) \<Rightarrow>
       (case write' d flush f w of
          (r, f2, w2) \<Rightarrow>
            \<exists>evs. trace w2 = trace w1 @ evs \<and>
                  set evs \<subseteq> (\<lambda>h. SeekCall h 0 SeekCurrent) ` UNIV \<union> (\<lambda>h. WriteCall h d) ` UNIV
                            \<union> SyncCall ` UNIV)"
proof -
  obtain err f1 w1 where r: "reopenIfNeeded f w = (err, f1, w1)"
    by (cases "reopenIfNeeded f w")
  show ?thesis
  proof (cases "file' f1")
    case None
    then show ?thesis using r by (simp add: write'_def)
  next
    case (Some h)
    then show ?thesis using r
      by (auto simp: write'_def host_call_def Let_def split: prod.splits if_splits)
  qed
qed

section \<open>Properties of the rotating file\<close>

text \<open>
  C1. A write whose rotation fails returns the error of the rotation with zero bytes
  written (\<open>write_rotation_error\<close>), but the instance does not stay as it was:
  \<open>open_file\<close> stores the new path and the new day before it creates the directory
  and returns early on the error. Here an instance constructed on 1 January writes on
  2 January while the log directory cannot be created. The write returns the host's
  error, and afterwards the path is the one of 2 January and the day is 2 with no file
  open. The next write on 2 January, on a host where every call succeeds, finds the day
  unchanged, makes no call to create the directory or open the file, and fails with
  \<^verbatim>\<open>os.ErrInvalid\<close> from the seek on the nil file.
\<close>

theorem failed_rotation_not_retried:
  "Write ''x'' (fresh jan1) (hostNoDir (stopped jan2)) =
     ((0, Some (HostError 13)), (fresh jan1)\<lparr>day := 2, path := ''logs/later.txt''\<rparr>,
      (hostNoDir (stopped jan2))\<lparr>tick := 3, trace := [MkdirAllCall ''logs'' 493]\<rparr>) \<and>
   path (fresh jan1) = ''logs/first.txt'' \<and>
   Write ''x'' ((fresh jan1)\<lparr>day := 2, path := ''logs/later.txt''\<rparr>) (host (stopped jan2)) =
     ((0, Some ErrInvalid), (fresh jan1)\<lparr>day := 2, path := ''logs/later.txt''\<rparr>,
      (host (stopped jan2))\<lparr>tick := 1\<rparr>)"
  by (simp add: eval_defs jan1_def jan2_def)

text \<open>
  C2. The day is not 0 exactly when a file is open: this fails in a state reached by a
  construction and one write. The instance is constructed on 1 January; its first write
  fails because the host cannot open the file. Afterwards the day is 1 and no file is
  open.
\<close>

theorem day_set_without_handle:
  "fst (New demoOpts (host (stopped jan1))) = Inr (fresh jan1) \<and>
   fst (Write ''x'' (fresh jan1) (hostNoOpen (stopped jan1))) = (0, Some (HostError 24)) \<and>
   day (fst (snd (Write ''x'' (fresh jan1) (hostNoOpen (stopped jan1))))) = 1 \<and>
   file' (fst (snd (Write ''x'' (fresh jan1) (hostNoOpen (stopped jan1))))) = None"
  by (simp add: eval_defs jan1_def)

text \<open>
  C3, as the program has it. The constructor does not look at the naming strategies: for
  every list of options it runs the probe, and its result is decided by the answers of
  the host to the four calls of that probe alone. The first of \<^verbatim>\<open>MkdirAll\<close>,
  \<^verbatim>\<open>OpenFile\<close>, \<^verbatim>\<open>Seek\<close> and \<^verbatim>\<open>Close\<close> to fail gives the error of the constructor, with
  no instance; when all four succeed the instance is returned, whether one strategy,
  both or none is configured. The path of the probe is the generator's when there is one
  and the formatted layout otherwise. With neither strategy configured that is the
  formatting of the empty layout; where this is the empty path and the host refuses to
  open it, the construction fails and no instance is created, with the error of the host.
  The clock is assumed to show a valid date.
\<close>

theorem New_no_validation:
  assumes "valid_date (clock w (tick w) (Location (foldl (\<lambda>f opt. apply_option opt f) zeroFile opts)))"
  shows "(let f0 = foldl (\<lambda>f opt. apply_option opt f) zeroFile opts;
              t = clock w (Suc (tick w)) (Location f0);
              p = (case pathGenerator f0 of
                     Some g \<Rightarrow> g t
                   | None \<Rightarrow> timeFormat w t (pathFormat f0));
              mk = MkdirAllCall (filepathDir w p) 493;
              op = OpenFileCall p [O_CREATE, O_WRONLY] 420
          in New opts w =
               (case mkdirAllRes w (Suc (Suc (tick w))) (filepathDir w p) of
                  Some e \<Rightarrow>
                    (Inl e, w\<lparr>tick := Suc (Suc (Suc (tick w))), trace := trace w @ [mk]\<rparr>)
                | None \<Rightarrow>
                   (case openFileRes w (Suc (Suc (Suc (tick w)))) p of
                      Inl e \<Rightarrow>
                        (Inl e, w\<lparr>tick := Suc (Suc (Suc (Suc (tick w)))),
                                  trace := trace w @ [mk, op]\<rparr>)
                    | Inr h \<Rightarrow>
                       (case seekRes w (Suc (Suc (Suc (Suc (tick w))))) h SeekEnd of
                          Inl e \<Rightarrow>
                            (Inl e, w\<lparr>tick := Suc (Suc (Suc (Suc (Suc (tick w))))),
                                      trace := trace w @ [mk, op, SeekCall h 0 SeekEnd]\<rparr>)
                        | Inr pos \<Rightarrow>
                           (case closeRes w (Suc (Suc (Suc (Suc (Suc (tick w)))))) h of
                              Some e \<Rightarrow>
                                (Inl e, w\<lparr>tick := Suc (Suc (Suc (Suc (Suc (Suc (tick w)))))),
                                          trace := trace w @ [mk, op, SeekCall h 0 SeekEnd, CloseCall h]\<rparr>)
                            | None \<Rightarrow>
                                (Inr (f0\<lparr>path := p\<rparr>),
                                 w\<lparr>tick := Suc (Suc (Suc (Suc (Suc (Suc (tick w)))))),
                                   trace := trace w @ [mk, op, SeekCall h 0 SeekEnd, CloseCall h]\<rparr>)))))
         \<and> (pathGenerator f0 = None \<and> pathFormat f0 = [] \<and> timeFormat w t [] = [] \<and>
              (\<forall>n. isl (openFileRes w n [])) \<longrightarrow> isl (fst (New opts w))))"
proof -
  define f0 where "f0 = foldl (\<lambda>f opt. apply_option opt f) zeroFile opts"
  define t where "t = clock w (Suc (tick w)) (Location f0)"
  define p where "p = (case pathGenerator f0 of
                         Some g \<Rightarrow> g t
                       | None \<Rightarrow> timeFormat w t (pathFormat f0))"
  define dir where "dir = filepathDir w p"
  note names = t_def [symmetric] p_def [symmetric] dir_def [symmetric]
  have zero: "day f0 = 0" "file' f0 = None" "noHooks f0 = False"
    using configure_fields [of zeroFile opts] by (simp_all add: f0_def zeroFile_def)
  have fin: "f0\<lparr>noHooks := True, path := p, day := YearDay t, file' := Some h,
                file' := None, day := 0, noHooks := False\<rparr> = f0\<lparr>path := p\<rparr>" for h
    using zero by simp
  have "YearDay (clock w (tick w) (Location f0)) \<noteq> 0"
    using YearDay_pos [OF assms] by (simp add: f0_def)
  note steps = New_unfold [OF this [unfolded f0_def], folded f0_def] open_file_unfold Let_def
  have exact: "New opts w =
       (case mkdirAllRes w (Suc (Suc (tick w))) dir of
          Some e \<Rightarrow>
            (Inl e, w\<lparr>tick := Suc (Suc (Suc (tick w))), trace := trace w @ [MkdirAllCall dir 493]\<rparr>)
        | None \<Rightarrow>
           (case openFileRes w (Suc (Suc (Suc (tick w)))) p of
              Inl e \<Rightarrow>
                (Inl e, w\<lparr>tick := Suc (Suc (Suc (Suc (tick w)))),
                          trace := trace w @ [MkdirAllCall dir 493, OpenFileCall p [O_CREATE, O_WRONLY] 420]\<rparr>)
            | Inr h \<Rightarrow>
               (case seekRes w (Suc (Suc (Suc (Suc (tick w))))) h SeekEnd of
                  Inl e \<Rightarrow>
                    (Inl e, w\<lparr>tick := Suc (Suc (Suc (Suc (Suc (tick w))))),
                              trace := trace w @ [MkdirAllCall dir 493, OpenFileCall p [O_CREATE, O_WRONLY] 420, SeekCall h 0 SeekEnd]\<rparr>)
                | Inr pos \<Rightarrow>
                   (case closeRes w (Suc (Suc (Suc (Suc (Suc (tick w)))))) h of
                      Some e \<Rightarrow>
                        (Inl e, w\<lparr>tick := Suc (Suc (Suc (Suc (Suc (Suc (tick w)))))),
                                  trace := trace w @ [MkdirAllCall dir 493, OpenFileCall p [O_CREATE, O_WRONLY] 420, SeekCall h 0 SeekEnd, CloseCall h]\<rparr>)
                    | None \<Rightarrow>
                        (Inr (f0\<lparr>path := p\<rparr>),
                         w\<lparr>tick := Suc (Suc (Suc (Suc (Suc (Suc (tick w)))))),
                           trace := trace w @ [MkdirAllCall dir 493, OpenFileCall p [O_CREATE, O_WRONLY] 420, SeekCall h 0 SeekEnd, CloseCall h]\<rparr>)))))"
  proof (cases "mkdirAllRes w (Suc (Suc (tick w))) dir")
    case (Some e)
    then show ?thesis by (simp add: steps names cong: option.case_cong sum.case_cong split: option.split)
  next
    case mkdir_ok: None
    show ?thesis
    proof (cases "openFileRes w (Suc (Suc (Suc (tick w)))) p")
      case (Inl e)
      then show ?thesis using mkdir_ok by (simp add: steps names cong: option.case_cong sum.case_cong split: option.split)
    next
      case open_ok: (Inr h)
      show ?thesis
      proof (cases "seekRes w (Suc (Suc (Suc (Suc (tick w))))) h SeekEnd")
        case (Inl e)
        then show ?thesis using mkdir_ok open_ok by (simp add: steps names cong: option.case_cong sum.case_cong split: option.split)
      next
        case seek_ok: (Inr pos)
        show ?thesis
        proof (cases "closeRes w (Suc (Suc (Suc (Suc (Suc (tick w)))))) h")
          case (Some e)
          then show ?thesis using mkdir_ok open_ok seek_ok
            by (simp add: steps names close_open_handle cong: option.case_cong sum.case_cong split: option.split)
        next
          case None
          then show ?thesis using mkdir_ok open_ok seek_ok fin [of h]
            by (simp add: steps names close_open_handle cong: option.case_cong sum.case_cong split: option.split)
        qed
      qed
    qed
  qed
  have neither: "isl (fst (New opts w))"
    if "pathGenerator f0 = None" "pathFormat f0 = []" "timeFormat w t [] = []"
       "\<forall>n. isl (openFileRes w n [])"
  proof -
    have "p = []" using that by (simp add: p_def)
    moreover have "isl (openFileRes w (Suc (Suc (Suc (tick w)))) [])" using that by blast
    ultimately show ?thesis
      unfolding exact by (auto split: option.splits sum.splits)
  qed
  show ?thesis
    unfolding Let_def f0_def [symmetric] t_def [symmetric] p_def [symmetric] dir_def [symmetric]
    using exact neither by blast
qed


theorem New_no_validation_witness:
  "valid_date (clock (host (stopped jan1)) (tick (host (stopped jan1)))
     (Location (foldl (\<lambda>f opt. apply_option opt f) zeroFile demoOpts))) \<and>
   New demoOpts (host (stopped jan1)) =
     (Inr (fresh jan1),
      (host (stopped jan1))
        \<lparr>tick := 6,
          trace := [MkdirAllCall ''logs'' 493,
                    OpenFileCall ''logs/first.txt'' [O_CREATE, O_WRONLY] 420,
                    SeekCall 3 0 SeekEnd, CloseCall 3]\<rparr>) \<and>
   pathGenerator (foldl (\<lambda>f opt. apply_option opt f) zeroFile []) = None \<and>
   pathFormat (foldl (\<lambda>f opt. apply_option opt f) zeroFile []) = [] \<and>
   timeFormat (hostStrict (stopped jan1)) jan1 [] = [] \<and>
   (\<forall>n. isl (openFileRes (hostStrict (stopped jan1)) n [])) \<and>
   New [] (hostStrict (stopped jan1)) =
     (Inl (HostError 2),
      (hostStrict (stopped jan1))
        \<lparr>tick := 4,
          trace := [MkdirAllCall ''logs'' 493, OpenFileCall [] [O_CREATE, O_WRONLY] 420]\<rparr>)"
  using New_no_validation [of "host (stopped jan1)" demoOpts]
    New_no_validation [of "hostStrict (stopped jan1)" "[]"]
  by (simp add: eval_defs jan1_def valid_date_def)

text \<open>
  C3 as stated fails: with a path format and a path generator both configured, on a host
  where every call succeeds, the constructor returns an instance.
\<close>

theorem New_accepts_both_strategies:
  "fst (New [WithPathFormat ''2006-01-02.txt'', WithPathGenerator (Some demoPath)] (host (stopped jan1))) =
     Inr (zeroFile\<lparr>pathGenerator := Some demoPath, pathFormat := ''2006-01-02.txt'',
                   path := ''logs/first.txt''\<rparr>)"
  by (simp add: eval_defs jan1_def)

text \<open>
  C4, as the program has it. Take a write, with hooks enabled, whose rotation check finds
  a file open and a day of the year other than the recorded one. The events of the
  rotation check are, in this order: \<open>beforeClose(old, true)\<close> if registered; one close of
  the old handle; and only if that close succeeded: \<open>onClose(old, true)\<close> if registered,
  the creation of the directory of the new path; only if that succeeded, one open of the
  new path; only if that succeeded, the seek to the end; and only if that succeeded,
  \<open>onOpen(new)\<close> if registered. The rotation check returns the error of the first of
  these four calls that fails, and no error when none does; on an error the write
  returns that error with offset 0 and 0 bytes. The rest of the write adds no close, no
  open and no hook.
\<close>

theorem rotation_hook_order:
  assumes "file' f = Some h"
      and "YearDay (clock w (tick w) (Location f)) \<noteq> day f"
      and "\<not> noHooks f"
  shows "(let t = clock w (Suc (Suc (tick w))) (Location f);
              p = (case pathGenerator f of
                     Some g \<Rightarrow> g t
                   | None \<Rightarrow> timeFormat w t (pathFormat f));
              dir = filepathDir w p
          in trace (snd (snd (reopenIfNeeded f w))) = trace w
               @ (case beforeClose f of Some cb \<Rightarrow> [BeforeCloseHook cb (path f) True] | None \<Rightarrow> [])
               @ [CloseCall h]
               @ (case closeRes w (Suc (tick w)) h of
                    Some e \<Rightarrow> []
                  | None \<Rightarrow>
                      (case onClose f of Some cb \<Rightarrow> [OnCloseHook cb (path f) True] | None \<Rightarrow> [])
                      @ [MkdirAllCall dir 493]
                      @ (case mkdirAllRes w (Suc (Suc (Suc (tick w)))) dir of
                           Some e \<Rightarrow> []
                         | None \<Rightarrow>
                             OpenFileCall p [O_CREATE, O_WRONLY] 420
                             # (case openFileRes w (Suc (Suc (Suc (Suc (tick w))))) p of
                                  Inl e \<Rightarrow> []
                                | Inr h' \<Rightarrow>
                                    SeekCall h' 0 SeekEnd
                                    # (case seekRes w (Suc (Suc (Suc (Suc (Suc (tick w)))))) h' SeekEnd of
                                         Inl e \<Rightarrow> []
                                       | Inr pos \<Rightarrow>
                                           (case onOpen f of
                                              Some cb \<Rightarrow> [OnOpenHook cb p]
                                            | None \<Rightarrow> [])))))
             \<and> fst (reopenIfNeeded f w) =
                 (case closeRes w (Suc (tick w)) h of
                    Some e \<Rightarrow> Some e
                  | None \<Rightarrow>
                      (case mkdirAllRes w (Suc (Suc (Suc (tick w)))) dir of
                         Some e \<Rightarrow> Some e
                       | None \<Rightarrow>
                           (case openFileRes w (Suc (Suc (Suc (Suc (tick w))))) p of
                              Inl e \<Rightarrow> Some e
                            | Inr h' \<Rightarrow>
                                (case seekRes w (Suc (Suc (Suc (Suc (Suc (tick w)))))) h' SeekEnd of
                                   Inl e \<Rightarrow> Some e
                                 | Inr pos \<Rightarrow> None)))))
         \<and> (\<forall>e. fst (reopenIfNeeded f w) = Some e \<longrightarrow>
                fst (write' d flush f w) = (0, 0, Some e))
         \<and> (\<exists>evs. trace (snd (snd (write' d flush f w))) =
                     trace (snd (snd (reopenIfNeeded f w))) @ evs \<and>
                   set evs \<subseteq> (\<lambda>h. SeekCall h 0 SeekCurrent) ` UNIV
                             \<union> (\<lambda>h. WriteCall h d) ` UNIV \<union> SyncCall ` UNIV)"
    (is "?rotation \<and> ?failure \<and> ?rest")
proof
  show ?rotation
  proof -
    define t where "t = clock w (Suc (Suc (tick w))) (Location f)"
    define p where "p = (case pathGenerator f of
                           Some g \<Rightarrow> g t
                         | None \<Rightarrow> timeFormat w t (pathFormat f))"
    define dir where "dir = filepathDir w p"
    note names = t_def [symmetric] p_def [symmetric] dir_def [symmetric]
    note steps = reopenIfNeeded_rotate [OF assms(1,2)] close_open_handle [OF assms(1)]
      open_file_unfold Let_def
    show ?thesis
    proof (cases "closeRes w (Suc (tick w)) h")
      case (Some e)
      then show ?thesis using assms(3)
        by (simp add: steps cong: option.case_cong split: option.split)
    next
      case close_ok: None
      show ?thesis
      proof (cases "mkdirAllRes w (Suc (Suc (Suc (tick w)))) dir")
        case (Some e)
        then show ?thesis using assms(3) close_ok
          by (simp add: steps names cong: option.case_cong)
      next
        case mkdir_ok: None
        show ?thesis
        proof (cases "openFileRes w (Suc (Suc (Suc (Suc (tick w))))) p")
          case (Inl e)
          then show ?thesis using assms(3) close_ok mkdir_ok
            by (simp add: steps names cong: option.case_cong)
        next
          case open_ok: (Inr h')
          show ?thesis
          proof (cases "seekRes w (Suc (Suc (Suc (Suc (Suc (tick w)))))) h' SeekEnd")
            case (Inl e)
            then show ?thesis using assms(3) close_ok mkdir_ok open_ok
              by (simp add: steps names cong: option.case_cong)
          next
            case (Inr pos)
            then show ?thesis using assms(3) close_ok mkdir_ok open_ok
              by (simp add: steps names cong: option.case_cong)
          qed
        qed
      qed
    qed
  qed
  have ?failure
    by (auto simp: write'_def split: prod.splits)
  moreover have ?rest
    using write_after_rotation_check [where f = f and w = w and d = d and flush = flush]
    by (simp split: prod.splits)
  ultimately show "?failure \<and> ?rest" ..
qed


theorem rotation_hook_order_witness:
  "file' (opened jan1) = Some 3 \<and>
   YearDay (clock (host (stopped jan2)) (tick (host (stopped jan2))) (Location (opened jan1)))
     \<noteq> day (opened jan1) \<and>
   \<not> noHooks (opened jan1) \<and>
   trace (snd (snd (reopenIfNeeded (opened jan1) (host (stopped jan2))))) =
     [BeforeCloseHook 1 ''logs/first.txt'' True, CloseCall 3,
      OnCloseHook 2 ''logs/first.txt'' True, MkdirAllCall ''logs'' 493,
      OpenFileCall ''logs/later.txt'' [O_CREATE, O_WRONLY] 420, SeekCall 3 0 SeekEnd,
      OnOpenHook 3 ''logs/later.txt''] \<and>
   fst (reopenIfNeeded (opened jan1) (host (stopped jan2))) = None \<and>
   fst (reopenIfNeeded (opened jan1) (hostNoClose (stopped jan2))) = Some (HostError 5) \<and>
   fst (write' ''x'' False (opened jan1) (hostNoClose (stopped jan2))) =
     (0, 0, Some (HostError 5))"
  using rotation_hook_order [of "opened jan1" 3 "host (stopped jan2)" "''x''" False]
    rotation_hook_order [of "opened jan1" 3 "hostNoClose (stopped jan2)" "''x''" False]
  by (simp add: eval_defs jan1_def jan2_def split: prod.splits)

text \<open>
  C4 as stated fails: when the close of the old file fails, the write returns that error
  and no open of the new path happens; the trace ends with the close.
\<close>

theorem rotation_close_failure_no_open:
  "file' (opened jan1) = Some 3 \<and>
   YearDay (clock (hostNoClose (stopped jan2)) 0 UTC) \<noteq> day (opened jan1) \<and>
   Write ''x'' (opened jan1) (hostNoClose (stopped jan2)) =
     ((0, Some (HostError 5)), (opened jan1)\<lparr>file' := None, day := 0\<rparr>,
      (hostNoClose (stopped jan2))
        \<lparr>tick := 2, trace := [BeforeCloseHook 1 ''logs/first.txt'' True, CloseCall 3]\<rparr>)"
  by (simp add: eval_defs jan1_def jan2_def)

text \<open>
  C5. Every successful construction performs exactly one probe cycle and nothing else:
  the path of today is resolved, its parent directories are created, the file is opened
  with \<^verbatim>\<open>O_CREATE|O_WRONLY\<close> (so without \<^verbatim>\<open>O_TRUNC\<close>), the position is moved to the end
  and the file is closed. The trace of the construction holds these four calls and no
  call of a hook, whichever hooks the options register, and the instance returned has no
  file open. The clock is assumed to show valid dates, as every \<^verbatim>\<open>time.Time\<close> does.
\<close>

theorem New_probe:
  assumes valid: "\<forall>n loc. valid_date (clock w n loc)"
      and ok: "New opts w = (Inr f, w1)"
  shows "\<exists>h. let f0 = foldl (\<lambda>f opt. apply_option opt f) zeroFile opts;
                 t = clock w (Suc (tick w)) (Location f0);
                 p = (case pathGenerator f0 of
                        Some g \<Rightarrow> g t
                      | None \<Rightarrow> timeFormat w t (pathFormat f0))
             in trace w1 = trace w @ [MkdirAllCall (filepathDir w p) 493,
                                      OpenFileCall p [O_CREATE, O_WRONLY] 420,
                                      SeekCall h 0 SeekEnd, CloseCall h]
                \<and> file' f = None \<and> day f = 0 \<and> path f = p \<and> \<not> noHooks f"
proof -
  have "valid_date (clock w (tick w) (Location (foldl (\<lambda>f opt. apply_option opt f) zeroFile opts)))"
    using valid by blast
  then have v: "YearDay (clock w (tick w) (Location (foldl (\<lambda>f opt. apply_option opt f) zeroFile opts))) \<noteq> 0"
    using YearDay_pos by fastforce
  show ?thesis
    using ok unfolding New_unfold [OF v] open_file_unfold
    by (auto simp: Let_def close_open_handle split: option.splits sum.splits)
qed

theorem New_probe_witness:
  "(\<forall>n loc. valid_date (clock (host (stopped jan1)) n loc)) \<and>
   fst (New demoOpts (host (stopped jan1))) = Inr (fresh jan1) \<and>
   trace (snd (New demoOpts (host (stopped jan1)))) =
     [MkdirAllCall ''logs'' 493, OpenFileCall ''logs/first.txt'' [O_CREATE, O_WRONLY] 420,
      SeekCall 3 0 SeekEnd, CloseCall 3] \<and>
   file' (fresh jan1) = None"
  using New_probe [of "host (stopped jan1)" demoOpts "fresh jan1" "snd (New demoOpts (host (stopped jan1)))"]
  by (simp add: eval_defs jan1_def valid_date_def)

text \<open>
  C6. Explicit close is idempotent. On an instance with no file open, \<open>Close\<close> changes
  neither the instance nor the world (so it makes no system call and calls no hook) and
  returns no error. After any \<open>Close\<close> no file is open, so a second \<open>Close\<close> right after
  the first does nothing more.
\<close>

theorem Close_idempotent:
  "(file' f = None \<longrightarrow> Close f w = (None, f, w)) \<and>
   (case Close f w of (e, f1, w1) \<Rightarrow> file' f1 = None \<and> Close f1 w1 = (None, f1, w1))"
  by (auto simp: Close_def close_def Let_def split: prod.splits option.splits)

theorem Close_idempotent_witness:
  "file' (fresh jan1) = None \<and>
   Close (fresh jan1) (host (stopped jan1)) = (None, fresh jan1, host (stopped jan1)) \<and>
   file' (opened jan1) = Some 3 \<and>
   Close (fst (snd (Close (opened jan1) (host (stopped jan1)))))
         (snd (snd (Close (opened jan1) (host (stopped jan1))))) =
     (None, snd (Close (opened jan1) (host (stopped jan1))))"
  using Close_idempotent [of "fresh jan1" "host (stopped jan1)"]
    Close_idempotent [of "opened jan1" "host (stopped jan1)"]
  by (simp add: fresh_def opened_def split: prod.splits)

text \<open>
  C7. On an instance with no file open, \<open>Flush\<close> returns an error, the \<^verbatim>\<open>os.ErrInvalid\<close>
  of a nil \<^verbatim>\<open>*os.File\<close>, and the world is unchanged: no sync is made.
\<close>

theorem Flush_without_file:
  "file' f = None \<Longrightarrow> Flush f w = (Some ErrInvalid, f, w)"
  by (simp add: Flush_def)

theorem Flush_without_file_witness:
  "file' (fresh jan1) = None \<and>
   Flush (fresh jan1) (host (stopped jan1)) = (Some ErrInvalid, fresh jan1, host (stopped jan1))"
  using Flush_without_file [of "fresh jan1" "host (stopped jan1)"]
  by (simp add: fresh_def)

text \<open>
  C8. When a path generator is configured, \<open>open_file\<close> sets the path to what the
  generator returns for the current time, and the path format has no influence: with
  any other format the result is the same, but for the format field itself.
\<close>

theorem open_file_generator_first:
  assumes "pathGenerator f = Some g"
  shows "path (fst (snd (open_file f w))) = g (clock w (tick w) (Location f)) \<and>
         open_file (f\<lparr>pathFormat := s\<rparr>) w =
           (case open_file f w of (e, f1, w1) \<Rightarrow> (e, f1\<lparr>pathFormat := s\<rparr>, w1))"
  using assms
  by (simp add: open_file_def time_Now_In_def os_MkdirAll_def os_OpenFile_def host_call_def
      hook_call_def Let_def split: prod.splits option.splits sum.splits)

theorem open_file_generator_first_witness:
  "pathGenerator (fresh jan1) = Some demoPath \<and>
   pathFormat (fresh jan1) = ''2006-01-02.txt'' \<and>
   path (fst (snd (open_file (fresh jan1) (host (stopped jan2))))) = ''logs/later.txt''"
  using open_file_generator_first [of "fresh jan1" demoPath "host (stopped jan2)" "''x''"]
  by (simp add: fresh_def host_def demoPath_def stopped_def jan2_def)

text \<open>
  C9. The rotation bucket is the day of the year alone. When a file is open and the
  current time has the day of the year that is recorded, the rotation check changes
  nothing, and the write goes to the handle that is open: path, day and handle stay, and
  the only system calls are the seek to the current position, the write and the sync on
  that handle. Year and month are not compared: the witness writes on 1 March 2025 to
  the file opened on 29 February 2024, both day 60.
\<close>

theorem same_day_no_rotation:
  assumes "file' f = Some h" and "YearDay (clock w (tick w) (Location f)) = day f"
  shows "reopenIfNeeded f w = (None, f, w\<lparr>tick := Suc (tick w)\<rparr>) \<and>
         (case write' d flush f w of
            (r, f1, w1) \<Rightarrow>
              file' f1 = Some h \<and> path f1 = path f \<and> day f1 = day f \<and>
              (\<exists>evs. trace w1 = trace w @ SeekCall h 0 SeekCurrent # evs \<and>
                     set evs \<subseteq> {WriteCall h d, SyncCall h}))"
  using assms
  by (auto simp: reopenIfNeeded_def write'_def time_Now_In_def host_call_def
      Let_def split: prod.splits option.splits sum.splits if_splits)

theorem same_day_no_rotation_witness:
  "year feb29 \<noteq> year mar1 \<and> month feb29 \<noteq> month mar1 \<and>
   file' (opened feb29) = Some 3 \<and>
   YearDay (clock (host (stopped mar1)) (tick (host (stopped mar1))) (Location (opened feb29)))
     = day (opened feb29) \<and>
   reopenIfNeeded (opened feb29) (host (stopped mar1)) =
     (None, opened feb29, (host (stopped mar1))\<lparr>tick := 1\<rparr>) \<and>
   path (fst (snd (write' ''b'' False (opened feb29) (host (stopped mar1))))) = ''logs/later.txt''"
  using same_day_no_rotation [of "opened feb29" 3 "host (stopped mar1)" "''b''" False]
  by (simp add: opened_def fresh_def host_def demoPath_def stopped_def YearDay_def isLeap_def
      feb29_def mar1_def split: prod.splits)

text \<open>
  C10. \<open>Flush\<close> returns the instance as it received it: day, path, handle and last
  write position are the same before and after, whatever the clock shows. It does not
  read the clock; all it does to the world is one sync on the open handle, if there is one.
\<close>

theorem Flush_frame:
  "fst (snd (Flush f w)) = f \<and>
   trace (snd (snd (Flush f w))) =
     trace w @ (case file' f of None \<Rightarrow> [] | Some h \<Rightarrow> [SyncCall h])"
  by (cases "file' f") (simp_all add: Flush_def host_call_def)

end
